theory Spec2Isabelle
  imports Complex_Main "HOL-Library.Word"
begin

section \<open>TinyG G-code parser (firmware/tinyg\_330.19/gcode\_parser.c)\<close>

text \<open>
  The parser reads one line of text (a block), normalizes it in place, loads the
  next-block model \<open>gn\<close> and its flags \<open>gf\<close> from the letter/value statements,
  and then calls the canonical machining functions.

  Conventions of the embedding:
  \<^item> a C string is a \<open>string\<close>; the terminator is not stored: reading at or beyond the
    end yields \<open>NUL\<close>, and a \<open>NUL\<close> character inside the list ends the C string there;
  \<^item> \<open>char\<close> is unsigned (the project is built with \<^verbatim>\<open>-funsigned-char\<close>);
  \<^item> the buffer indices are \<open>uint8_t\<close> in the source and a block has at most 255
    characters, so that they never wrap; they are natural numbers here;
  \<^item> a \<open>double\<close> is a real number: rounding is not modelled.
\<close>

subsection \<open>Characters (ctype.h, xio.h)\<close>

definition code :: "char \<Rightarrow> nat" where
  "code c = of_char c"

definition NUL :: char where
  "NUL = CHR 0x00"

definition DEL :: char where
  "DEL = CHR 0x7F"

definition toupper :: "char \<Rightarrow> char" where
  "toupper c = (if 97 \<le> code c \<and> code c \<le> 122 then char_of (code c - 32) else c)"

definition isupper :: "char \<Rightarrow> bool" where
  "isupper c \<longleftrightarrow> 65 \<le> code c \<and> code c \<le> 90"

definition isdigit :: "char \<Rightarrow> bool" where
  "isdigit c \<longleftrightarrow> 48 \<le> code c \<and> code c \<le> 57"

text \<open>The string literal of the \<open>strchr\<close> call in the normalization loop.\<close>

definition invalid_punctuation :: string where
  "invalid_punctuation =
     [CHR ''!'', CHR ''$'', CHR ''%'', CHR '','', CHR '';'', CHR '':'', CHR ''?'', CHR ''@'',
      CHR ''^'', CHR ''_'', CHR ''~'', CHR 0x60, CHR 0x27, CHR 0x22]"

subsection \<open>Block normalization\<close>

text \<open>
  The \<open>while\<close> loop of \<open>_gc_normalize_gcode_block\<close>. It reads the block from
  index \<open>i\<close> on and writes the retained characters at index \<open>j \<le> i\<close>; the model
  returns the characters written and, where the loop stopped at an opening parenthesis,
  the comment: the C string that starts after the parenthesis.
\<close>

definition cstring :: "string \<Rightarrow> string" where
  "cstring s = takeWhile (\<lambda>c. c \<noteq> NUL) s"

fun normalize_loop :: "string \<Rightarrow> string \<times> string option" where
  "normalize_loop [] = ([], None)"
| "normalize_loop (b # bs) =
     (let c = toupper b in
      if c = NUL then ([], None)
      else if isupper c \<or> isdigit c then
        (case normalize_loop bs of (cmd, comment) \<Rightarrow> (c # cmd, comment))
      else if c = CHR ''('' then ([], Some (cstring bs))
      else if code c \<le> code CHR '' '' then normalize_loop bs
      else if c = DEL then normalize_loop bs
      else if c \<in> set invalid_punctuation then normalize_loop bs
      else (case normalize_loop bs of (cmd, comment) \<Rightarrow> (c # cmd, comment)))"

text \<open>
  The message of a comment: the comment starts with MSG in any letter case; the text is
  what follows MSG, up to the first closing parenthesis of the comment.
\<close>

definition comment_message :: "string \<Rightarrow> string option" where
  "comment_message comment =
     (if map toupper (take 3 comment) = ''MSG''
      then Some (drop 3 (takeWhile (\<lambda>c. c \<noteq> CHR '')'') comment))
      else None)"

text \<open>
  The result of \<open>_gc_normalize_gcode_block\<close>: the block as the function leaves it,
  the message it passes to \<open>cm_message\<close> (if any), and whether it reached the
  statement \<open>cm.linecount += 1\<close>.
\<close>

record normalized =
  nblock :: string
  nmessage :: "string option"
  ncounted :: bool

definition gc_normalize_gcode_block :: "string \<Rightarrow> normalized" where
  "gc_normalize_gcode_block block =
     (case cstring block of
        [] \<Rightarrow> \<lparr>nblock = [], nmessage = None, ncounted = True\<rparr>
      | b # bs \<Rightarrow>
          if b = CHR ''/'' then \<lparr>nblock = [], nmessage = None, ncounted = False\<rparr>
          else if b = CHR ''?'' then \<lparr>nblock = b # bs, nmessage = None, ncounted = False\<rparr>
          else (case normalize_loop (b # bs) of
                  (cmd, comment) \<Rightarrow>
                    \<lparr>nblock = cmd,
                     nmessage = (case comment of None \<Rightarrow> None | Some t \<Rightarrow> comment_message t),
                     ncounted = True\<rparr>))"

subsection \<open>Status codes and the model structures (tinyg.h, canonical\_machine.h)\<close>

text \<open>
  Modelled from the spec: the header tinyg.h is missing; these are the status codes that
  the specification lists, under the names that the parser uses.
\<close>

datatype status =
    TG_OK | TG_NOOP | TG_COMPLETE | TG_EAGAIN
  | TG_EXPECTED_COMMAND_LETTER | TG_BAD_NUMBER_FORMAT | TG_UNRECOGNIZED_COMMAND
  | TG_ARC_SPECIFICATION_ERROR | TG_SOFT_LIMIT_EXCEEDED | TG_QUEUE_FULL | TG_INTERNAL_ERROR

text \<open>
  Modelled from the spec: the header canonical\_machine.h is missing. The enumerations
  have the enumerators that the parser names; \<open>NEXT_ACTION_NONE\<close> and
  \<open>PROGRAM_FLOW_RUNNING\<close> stand for the values that the parser never writes.
\<close>

datatype next_action =
    NEXT_ACTION_NONE | NEXT_ACTION_MOTION | NEXT_ACTION_DWELL | NEXT_ACTION_RETURN_TO_HOME
  | NEXT_ACTION_HOMING_CYCLE | NEXT_ACTION_OFFSET_COORDINATES

datatype motion_mode =
    MOTION_MODE_STRAIGHT_TRAVERSE | MOTION_MODE_STRAIGHT_FEED | MOTION_MODE_CW_ARC
  | MOTION_MODE_CCW_ARC | MOTION_MODE_CANCEL_MOTION_MODE

datatype canon_plane = CANON_PLANE_XY | CANON_PLANE_XZ | CANON_PLANE_YZ

datatype path_control = PATH_EXACT_PATH | PATH_EXACT_STOP | PATH_CONTINUOUS

datatype program_flow = PROGRAM_FLOW_RUNNING | PROGRAM_FLOW_PAUSED | PROGRAM_FLOW_COMPLETED

datatype spindle_mode = SPINDLE_OFF | SPINDLE_CW | SPINDLE_CCW

text \<open>
  Modelled from the spec: six axes X, Y, Z, A, B, C, which index the target vector in
  this order.
\<close>

definition AXES :: nat where
  "AXES = 6"

text \<open>
  \<open>struct GCodeModel\<close>, with the fields that the parser reads or writes. The fields
  that hold \<open>true\<close> or \<open>FALSE\<close> are \<open>uint8_t\<close>.
\<close>

record GCodeModel =
  next_action :: next_action
  motion_mode :: motion_mode
  select_plane :: canon_plane
  inches_mode :: "8 word"
  absolute_mode :: "8 word"
  absolute_override :: "8 word"
  path_control :: path_control
  set_origin_mode :: "8 word"
  inverse_feed_rate_mode :: "8 word"
  program_flow :: program_flow
  spindle_mode :: spindle_mode
  change_tool :: "8 word"
  tool :: "8 word"
  feed_rate :: real
  dwell_time :: real
  spindle_speed :: real
  target :: "real list"
  arc_offset :: "real list"
  arc_radius :: real

text \<open>
  The flags \<open>gf\<close>. In the source \<open>gf\<close> is a second \<open>struct GCodeModel\<close> whose fields
  only ever hold 0 (after \<open>ZERO_MODEL_STATE\<close>) or 1 (after \<open>gf.a=1\<close>): a field is a
  \<open>bool\<close> here, true for 1. The tests of the source on a flag, \<open>(int)gf.v != 0\<close>,
  \<open>gf.v == true\<close> and the negation of \<open>gf.target[i] < EPSILON\<close> (\<open>EPSILON\<close> a small
  positive tolerance below 1), all say that the flag is 1.
\<close>

record GCodeFlags =
  f_next_action :: bool
  f_motion_mode :: bool
  f_select_plane :: bool
  f_inches_mode :: bool
  f_absolute_mode :: bool
  f_absolute_override :: bool
  f_path_control :: bool
  f_set_origin_mode :: bool
  f_inverse_feed_rate_mode :: bool
  f_program_flow :: bool
  f_spindle_mode :: bool
  f_change_tool :: bool
  f_tool :: bool
  f_feed_rate :: bool
  f_dwell_time :: bool
  f_spindle_speed :: bool
  f_target :: "bool list"
  f_arc_offset :: "bool list"
  f_arc_radius :: bool

subsection \<open>The canonical machine, as the parser sees it\<close>

text \<open>
  The canonical machining functions that the parser calls for their effect, with their
  arguments. The functions themselves are not part of these sources.
\<close>

datatype cm_call =
    cm_set_absolute_override "8 word"
  | cm_set_inverse_feed_rate_mode "8 word"
  | cm_set_feed_rate real
  | cm_set_spindle_speed real
  | cm_select_tool "8 word"
  | cm_change_tool "8 word"
  | cm_start_spindle_clockwise
  | cm_start_spindle_counterclockwise
  | cm_stop_spindle_turning
  | cm_dwell real
  | cm_select_plane canon_plane
  | cm_set_inches_mode "8 word"
  | cm_set_absolute_mode "8 word"
  | cm_return_to_home
  | cm_homing_cycle
  | cm_set_origin_offsets "real list"
  | cm_straight_traverse "real list"
  | cm_straight_feed "real list"
  | cm_arc_feed "real list" real real real real motion_mode

text \<open>
  What the missing parts answer during one block, taken as a parameter:
  \<^item> the values of the getters \<open>cm_get_next_action\<close>, \<open>cm_get_motion_mode\<close>,
    \<open>cm_get_absolute_mode\<close> and \<open>cm_get_position\<close>, which the parser calls before
    it calls any machining function other than \<open>cm_set_absolute_override\<close>;
  \<^item> the status that a machining function returns, which may depend on the calls made
    before it;
  \<^item> the enumerator whose value is 0 in each enumeration: what \<open>ZERO_MODEL_STATE\<close>
    leaves in a field of that type.
\<close>

record canon =
  cm_get_next_action :: next_action
  cm_get_motion_mode :: motion_mode
  cm_get_absolute_mode :: "8 word"
  cm_get_position :: "nat \<Rightarrow> real"
  cm_status :: "cm_call list \<Rightarrow> cm_call \<Rightarrow> status"
  zero_next_action :: next_action
  zero_motion_mode :: motion_mode
  zero_plane :: canon_plane
  zero_path_control :: path_control
  zero_program_flow :: program_flow
  zero_spindle_mode :: spindle_mode

text \<open>
  The state that \<open>_gc_parse_gcode_block\<close> and \<open>_gc_execute_gcode_block\<close> change:
  the two model structures, the field \<open>cm.linenum\<close>, and the machining functions
  called so far (oldest first).
\<close>

record machine =
  gn :: GCodeModel
  gf :: GCodeFlags
  linenum :: "32 word"
  calls :: "cm_call list"

text \<open>
  The state around it, which \<open>_gc_normalize_gcode_block\<close> changes: the field
  \<open>cm.linecount\<close> and the messages passed to \<open>cm_message\<close>.

  Modelled from the spec: \<open>cm_message\<close> is missing; it forwards the text to the host
  console, so the messages are kept apart from the machining calls.
\<close>

record session =
  mach :: machine
  linecount :: nat
  console :: "string list"

definition ZERO_MODEL_STATE :: "canon \<Rightarrow> GCodeModel" where
  "ZERO_MODEL_STATE cm =
     \<lparr>next_action = zero_next_action cm, motion_mode = zero_motion_mode cm,
      select_plane = zero_plane cm, inches_mode = 0, absolute_mode = 0,
      absolute_override = 0, path_control = zero_path_control cm, set_origin_mode = 0,
      inverse_feed_rate_mode = 0, program_flow = zero_program_flow cm,
      spindle_mode = zero_spindle_mode cm, change_tool = 0, tool = 0, feed_rate = 0,
      dwell_time = 0, spindle_speed = 0, target = replicate AXES 0,
      arc_offset = replicate 3 0, arc_radius = 0\<rparr>"

definition ZERO_FLAGS :: GCodeFlags where
  "ZERO_FLAGS =
     \<lparr>f_next_action = False, f_motion_mode = False, f_select_plane = False,
      f_inches_mode = False, f_absolute_mode = False, f_absolute_override = False,
      f_path_control = False, f_set_origin_mode = False, f_inverse_feed_rate_mode = False,
      f_program_flow = False, f_spindle_mode = False, f_change_tool = False, f_tool = False,
      f_feed_rate = False, f_dwell_time = False, f_spindle_speed = False,
      f_target = replicate AXES False, f_arc_offset = replicate 3 False,
      f_arc_radius = False\<rparr>"

subsection \<open>Numbers (util.c, math.h)\<close>

definition char_at :: "string \<Rightarrow> nat \<Rightarrow> char" where
  "char_at buf i = (if i < length buf then buf ! i else NUL)"

definition decimal :: "string \<Rightarrow> nat" where
  "decimal ds = foldl (\<lambda>n c. 10 * n + (code c - 48)) 0 ds"

text \<open>
  Modelled from the spec: \<open>read_double\<close> is missing. The value of a statement is a
  signed decimal number: an optional sign, digits, and optionally a point and digits,
  with at least one digit in all. On success the index is left on the first character
  behind the number.
\<close>

definition read_double :: "string \<Rightarrow> nat \<Rightarrow> (real \<times> nat) option" where
  "read_double buf i =
     (let k = (if char_at buf i = CHR ''-'' \<or> char_at buf i = CHR ''+'' then i + 1 else i);
          ip = takeWhile isdigit (drop k buf);
          k2 = k + length ip;
          point = (char_at buf k2 = CHR ''.'');
          fp = (if point then takeWhile isdigit (drop (k2 + 1) buf) else []);
          k3 = (if point then k2 + 1 + length fp else k2);
          v = real (decimal ip) + real (decimal fp) / 10 ^ length fp
      in if ip = [] \<and> fp = [] then None
         else Some (if char_at buf i = CHR ''-'' then - v else v, k3))"

definition trunc :: "real \<Rightarrow> real" where
  "trunc x = (if 0 \<le> x then of_int \<lfloor>x\<rfloor> else of_int \<lceil>x\<rceil>)"

text \<open>
  The casts \<open>(uint8_t)x\<close> and \<open>(uint32_t)x\<close> of a \<open>double\<close>: the fraction is
  discarded. C defines the result only where the truncated value fits the type;
  elsewhere the model reduces it modulo the size of the type.
\<close>

definition uint8_t :: "real \<Rightarrow> 8 word" where
  "uint8_t x = word_of_int (if 0 \<le> x then \<lfloor>x\<rfloor> else \<lceil>x\<rceil>)"

definition uint32_t :: "real \<Rightarrow> 32 word" where
  "uint32_t x = word_of_int (if 0 \<le> x then \<lfloor>x\<rfloor> else \<lceil>x\<rceil>)"

subsection \<open>Statements\<close>

text \<open>
  \<open>_get_next_statement\<close>: \<open>Inl\<close> the status when there is no statement, otherwise
  the letter, the value, its fraction and the index behind the statement.
\<close>

definition get_next_statement :: "string \<Rightarrow> nat \<Rightarrow> status + (char \<times> real \<times> real \<times> nat)" where
  "get_next_statement buf i =
     (if char_at buf i = NUL then Inl TG_COMPLETE
      else if \<not> isupper (char_at buf i) then Inl TG_EXPECTED_COMMAND_LETTER
      else (case read_double buf (i + 1) of
              None \<Rightarrow> Inl TG_BAD_NUMBER_FORMAT
            | Some (val, i') \<Rightarrow> Inr (char_at buf i, val, val - trunc val, i')))"

text \<open>
  The macros that load \<open>gn\<close> and \<open>gf\<close>. \<open>SET_NEXT_STATE(a,v)\<close> is
  \<open>gn.a=v; gf.a=1; break\<close>: the two assignments are the arguments \<open>set_value\<close> and
  \<open>set_flag\<close>; the \<open>break\<close> is modelled where the macro is used.
\<close>

definition SET_NEXT_STATE ::
  "(GCodeModel \<Rightarrow> GCodeModel) \<Rightarrow> (GCodeFlags \<Rightarrow> GCodeFlags) \<Rightarrow> machine \<Rightarrow> machine" where
  "SET_NEXT_STATE set_value set_flag m = m\<lparr>gn := set_value (gn m), gf := set_flag (gf m)\<rparr>"

definition SET_NEXT_ACTION_MOTION ::
  "(GCodeModel \<Rightarrow> GCodeModel) \<Rightarrow> (GCodeFlags \<Rightarrow> GCodeFlags) \<Rightarrow> machine \<Rightarrow> machine" where
  "SET_NEXT_ACTION_MOTION set_value set_flag m =
     m\<lparr>gn := (set_value (gn m))\<lparr>next_action := NEXT_ACTION_MOTION\<rparr>,
       gf := (set_flag (gf m))\<lparr>f_next_action := True\<rparr>\<rparr>"

definition SET_NEXT_ACTION_OFFSET ::
  "(GCodeModel \<Rightarrow> GCodeModel) \<Rightarrow> (GCodeFlags \<Rightarrow> GCodeFlags) \<Rightarrow> machine \<Rightarrow> machine" where
  "SET_NEXT_ACTION_OFFSET set_value set_flag m =
     m\<lparr>gn := (set_value (gn m))\<lparr>next_action := NEXT_ACTION_OFFSET_COORDINATES\<rparr>,
       gf := (set_flag (gf m))\<lparr>f_next_action := True\<rparr>\<rparr>"

definition set_motion_mode :: "motion_mode \<Rightarrow> machine \<Rightarrow> machine" where
  "set_motion_mode v = SET_NEXT_ACTION_MOTION (\<lambda>g. g\<lparr>motion_mode := v\<rparr>) (\<lambda>f. f\<lparr>f_motion_mode := True\<rparr>)"

definition set_next_action :: "next_action \<Rightarrow> machine \<Rightarrow> machine" where
  "set_next_action v = SET_NEXT_STATE (\<lambda>g. g\<lparr>next_action := v\<rparr>) (\<lambda>f. f\<lparr>f_next_action := True\<rparr>)"

definition set_select_plane :: "canon_plane \<Rightarrow> machine \<Rightarrow> machine" where
  "set_select_plane v = SET_NEXT_STATE (\<lambda>g. g\<lparr>select_plane := v\<rparr>) (\<lambda>f. f\<lparr>f_select_plane := True\<rparr>)"

definition set_path_control :: "path_control \<Rightarrow> machine \<Rightarrow> machine" where
  "set_path_control v = SET_NEXT_STATE (\<lambda>g. g\<lparr>path_control := v\<rparr>) (\<lambda>f. f\<lparr>f_path_control := True\<rparr>)"

definition set_program_flow :: "program_flow \<Rightarrow> machine \<Rightarrow> machine" where
  "set_program_flow v = SET_NEXT_STATE (\<lambda>g. g\<lparr>program_flow := v\<rparr>) (\<lambda>f. f\<lparr>f_program_flow := True\<rparr>)"

definition set_spindle_mode :: "spindle_mode \<Rightarrow> machine \<Rightarrow> machine" where
  "set_spindle_mode v = SET_NEXT_STATE (\<lambda>g. g\<lparr>spindle_mode := v\<rparr>) (\<lambda>f. f\<lparr>f_spindle_mode := True\<rparr>)"

definition set_target :: "nat \<Rightarrow> real \<Rightarrow> machine \<Rightarrow> machine" where
  "set_target axis v =
     SET_NEXT_STATE (\<lambda>g. g\<lparr>target := (target g)[axis := v]\<rparr>)
       (\<lambda>f. f\<lparr>f_target := (f_target f)[axis := True]\<rparr>)"

definition set_arc_offset :: "nat \<Rightarrow> real \<Rightarrow> machine \<Rightarrow> machine" where
  "set_arc_offset k v =
     SET_NEXT_STATE (\<lambda>g. g\<lparr>arc_offset := (arc_offset g)[k := v]\<rparr>)
       (\<lambda>f. f\<lparr>f_arc_offset := (f_arc_offset f)[k := True]\<rparr>)"

text \<open>The inner \<open>switch\<close> of \<open>case 'G'\<close>, on \<open>(uint8_t)value\<close>.\<close>

definition parse_G :: "8 word \<Rightarrow> machine \<Rightarrow> status \<times> machine" where
  "parse_G n m =
     (if n = 0 then (TG_OK, set_motion_mode MOTION_MODE_STRAIGHT_TRAVERSE m)
      else if n = 1 then (TG_OK, set_motion_mode MOTION_MODE_STRAIGHT_FEED m)
      else if n = 2 then (TG_OK, set_motion_mode MOTION_MODE_CW_ARC m)
      else if n = 3 then (TG_OK, set_motion_mode MOTION_MODE_CCW_ARC m)
      else if n = 4 then (TG_OK, set_next_action NEXT_ACTION_DWELL m)
      else if n = 17 then (TG_OK, set_select_plane CANON_PLANE_XY m)
      else if n = 18 then (TG_OK, set_select_plane CANON_PLANE_XZ m)
      else if n = 19 then (TG_OK, set_select_plane CANON_PLANE_YZ m)
      else if n = 20 then
        (TG_OK, SET_NEXT_STATE (\<lambda>g. g\<lparr>inches_mode := 1\<rparr>) (\<lambda>f. f\<lparr>f_inches_mode := True\<rparr>) m)
      else if n = 21 then
        (TG_OK, SET_NEXT_STATE (\<lambda>g. g\<lparr>inches_mode := 0\<rparr>) (\<lambda>f. f\<lparr>f_inches_mode := True\<rparr>) m)
      else if n = 28 then (TG_OK, set_next_action NEXT_ACTION_RETURN_TO_HOME m)
      else if n = 30 then (TG_OK, set_next_action NEXT_ACTION_HOMING_CYCLE m)
      else if n = 53 then
        (TG_OK, SET_NEXT_STATE (\<lambda>g. g\<lparr>absolute_override := 1\<rparr>)
                  (\<lambda>f. f\<lparr>f_absolute_override := True\<rparr>) m)
      else if n = 61 then (TG_OK, set_path_control PATH_EXACT_PATH m)
      else if n = 64 then (TG_OK, set_path_control PATH_CONTINUOUS m)
      else if n = 80 then
        (TG_OK, SET_NEXT_STATE (\<lambda>g. g\<lparr>motion_mode := MOTION_MODE_CANCEL_MOTION_MODE\<rparr>)
                  (\<lambda>f. f\<lparr>f_motion_mode := True\<rparr>) m)
      else if n = 90 then
        (TG_OK, SET_NEXT_STATE (\<lambda>g. g\<lparr>absolute_mode := 1\<rparr>) (\<lambda>f. f\<lparr>f_absolute_mode := True\<rparr>) m)
      else if n = 91 then
        (TG_OK, SET_NEXT_STATE (\<lambda>g. g\<lparr>absolute_mode := 0\<rparr>) (\<lambda>f. f\<lparr>f_absolute_mode := True\<rparr>) m)
      else if n = 92 then
        (TG_OK, SET_NEXT_ACTION_OFFSET (\<lambda>g. g\<lparr>set_origin_mode := 1\<rparr>)
                  (\<lambda>f. f\<lparr>f_set_origin_mode := True\<rparr>) m)
      else if n = 93 then
        (TG_OK, SET_NEXT_STATE (\<lambda>g. g\<lparr>inverse_feed_rate_mode := 1\<rparr>)
                  (\<lambda>f. f\<lparr>f_inverse_feed_rate_mode := True\<rparr>) m)
      else if n = 94 then
        (TG_OK, SET_NEXT_STATE (\<lambda>g. g\<lparr>inverse_feed_rate_mode := 0\<rparr>)
                  (\<lambda>f. f\<lparr>f_inverse_feed_rate_mode := True\<rparr>) m)
      else if n = 40 then (TG_OK, m)
      else if n = 49 then (TG_OK, m)
      else (TG_UNRECOGNIZED_COMMAND, m))"

text \<open>The inner \<open>switch\<close> of \<open>case 'M'\<close>.\<close>

definition parse_M :: "8 word \<Rightarrow> machine \<Rightarrow> status \<times> machine" where
  "parse_M n m =
     (if n = 0 \<or> n = 1 then (TG_OK, set_program_flow PROGRAM_FLOW_PAUSED m)
      else if n = 2 \<or> n = 30 \<or> n = 60 then (TG_OK, set_program_flow PROGRAM_FLOW_COMPLETED m)
      else if n = 3 then (TG_OK, set_spindle_mode SPINDLE_CW m)
      else if n = 4 then (TG_OK, set_spindle_mode SPINDLE_CCW m)
      else if n = 5 then (TG_OK, set_spindle_mode SPINDLE_OFF m)
      else if n = 6 then
        (TG_OK, SET_NEXT_STATE (\<lambda>g. g\<lparr>change_tool := 1\<rparr>) (\<lambda>f. f\<lparr>f_change_tool := True\<rparr>) m)
      else if n = 7 \<or> n = 8 \<or> n = 9 \<or> n = 48 \<or> n = 49 then (TG_OK, m)
      else (TG_UNRECOGNIZED_COMMAND, m))"

text \<open>The outer \<open>switch(letter)\<close>: the status it leaves and the state.\<close>

definition parse_statement :: "char \<Rightarrow> real \<Rightarrow> machine \<Rightarrow> status \<times> machine" where
  "parse_statement letter val m =
     (if letter = CHR ''G'' then parse_G (uint8_t val) m
      else if letter = CHR ''M'' then parse_M (uint8_t val) m
      else if letter = CHR ''T'' then
        (TG_OK, SET_NEXT_STATE (\<lambda>g. g\<lparr>tool := uint8_t (trunc val)\<rparr>) (\<lambda>f. f\<lparr>f_tool := True\<rparr>) m)
      else if letter = CHR ''F'' then
        (TG_OK, SET_NEXT_STATE (\<lambda>g. g\<lparr>feed_rate := val\<rparr>) (\<lambda>f. f\<lparr>f_feed_rate := True\<rparr>) m)
      else if letter = CHR ''P'' then
        (TG_OK, SET_NEXT_STATE (\<lambda>g. g\<lparr>dwell_time := val\<rparr>) (\<lambda>f. f\<lparr>f_dwell_time := True\<rparr>) m)
      else if letter = CHR ''S'' then
        (TG_OK, SET_NEXT_STATE (\<lambda>g. g\<lparr>spindle_speed := val\<rparr>)
                  (\<lambda>f. f\<lparr>f_spindle_speed := True\<rparr>) m)
      else if letter = CHR ''X'' then (TG_OK, set_target 0 val m)
      else if letter = CHR ''Y'' then (TG_OK, set_target 1 val m)
      else if letter = CHR ''Z'' then (TG_OK, set_target 2 val m)
      else if letter = CHR ''A'' then (TG_OK, set_target 3 val m)
      else if letter = CHR ''B'' then (TG_OK, set_target 4 val m)
      else if letter = CHR ''C'' then (TG_OK, set_target 5 val m)
      else if letter = CHR ''I'' then (TG_OK, set_arc_offset 0 val m)
      else if letter = CHR ''J'' then (TG_OK, set_arc_offset 1 val m)
      else if letter = CHR ''K'' then (TG_OK, set_arc_offset 2 val m)
      else if letter = CHR ''R'' then
        (TG_OK, SET_NEXT_STATE (\<lambda>g. g\<lparr>arc_radius := val\<rparr>) (\<lambda>f. f\<lparr>f_arc_radius := True\<rparr>) m)
      else if letter = CHR ''N'' then (TG_OK, m\<lparr>linenum := uint32_t val\<rparr>)
      else (TG_UNRECOGNIZED_COMMAND, m))"

subsection \<open>Parsing a block\<close>

text \<open>
  The body of the \<open>for\<close> loop behind the test for G92.1 is
  \<open>SET_NEXT_STATE(target[i], 0)\<close>, whose \<open>break\<close> leaves the \<open>for\<close> loop in its
  first round: axis 0 is written, and the index \<open>i\<close>, which is also the index into the
  block, is left at 0.
\<close>

definition zero_targets :: "machine \<Rightarrow> machine" where
  "zero_targets m = (if 0 < AXES then set_target 0 0 m else m)"

text \<open>
  The \<open>while\<close> loop of \<open>_gc_parse_gcode_block\<close>, from index \<open>i\<close> on: the status
  that ends the loop and the state. The \<open>break\<close> of \<open>SET_NEXT_STATE\<close> behind the
  test for G61.1 leaves the \<open>while\<close> loop.
\<close>

function parse_loop :: "string \<Rightarrow> nat \<Rightarrow> machine \<Rightarrow> status \<times> machine" where
  "parse_loop buf i m =
     (case get_next_statement buf i of
        Inl status \<Rightarrow> (status, m)
      | Inr (letter, val, fraction, i') \<Rightarrow>
          (case parse_statement letter val m of
             (status, m') \<Rightarrow>
               if letter = CHR ''G'' \<and> uint8_t val = 61 \<and> uint8_t fraction \<noteq> 0
               then (status, set_path_control PATH_EXACT_STOP m')
               else if letter = CHR ''G'' \<and> uint8_t val = 92 \<and> uint8_t fraction \<noteq> 0
               then (if status \<noteq> TG_OK then (status, zero_targets m')
                     else parse_loop buf 0 (zero_targets m'))
               else if status \<noteq> TG_OK then (status, m')
               else parse_loop buf i' m'))"
  by pat_completeness auto

text \<open>
  The \<open>for\<close> loop that fills the targets: one round, for axis \<open>i\<close>.
\<close>

definition fill_target :: "canon \<Rightarrow> nat \<Rightarrow> machine \<Rightarrow> machine" where
  "fill_target cm i m =
     (if (absolute_mode (gn m) = 1 \<or> absolute_override (gn m) = 1) \<and> \<not> f_target (gf m) ! i
      then m\<lparr>gn := (gn m)\<lparr>target := (target (gn m))[i := cm_get_position cm i]\<rparr>\<rparr>
      else m)"

subsection \<open>Executing a block\<close>

text \<open>
  A call of a machining function: the canonical machine answers with a status, and the
  call is recorded.
\<close>

definition call :: "canon \<Rightarrow> cm_call \<Rightarrow> machine \<Rightarrow> status \<times> machine" where
  "call cm c m = (cm_status cm (calls m) c, m\<lparr>calls := calls m @ [c]\<rparr>)"

text \<open>
  A statement of \<open>_gc_execute_gcode_block\<close> either returns from the function
  (\<open>Inl\<close>, with the status returned) or falls through to the next statement (\<open>Inr\<close>).
\<close>

type_synonym step = "machine \<Rightarrow> (status \<times> machine) + machine"

definition then_step :: "step \<Rightarrow> step \<Rightarrow> step" where
  "then_step a b m = (case a m of Inl r \<Rightarrow> Inl r | Inr m' \<Rightarrow> b m')"

text \<open>
  Modelled from the spec: the macro \<open>ritorno\<close> is missing (tinyg.h). The parser
  returns early on any status other than OK: \<open>ritorno(f(...))\<close> returns the status of
  the call unless it is \<open>TG_OK\<close>.
\<close>

definition ritorno :: "canon \<Rightarrow> cm_call \<Rightarrow> step" where
  "ritorno cm c m =
     (case call cm c m of (status, m') \<Rightarrow> if status \<noteq> TG_OK then Inl (status, m') else Inr m')"

text \<open>\<open>CALL_CM_FUNC(f,v)\<close>, by the flag \<open>gf.v\<close> and the call \<open>f(gn.v)\<close>.\<close>

definition CALL_CM_FUNC :: "canon \<Rightarrow> bool \<Rightarrow> cm_call \<Rightarrow> step" where
  "CALL_CM_FUNC cm flag c m = (if flag then ritorno cm c m else Inr m)"

text \<open>\<open>(void)f()\<close>: the status is dropped.\<close>

definition void_call :: "canon \<Rightarrow> cm_call \<Rightarrow> step" where
  "void_call cm c m = Inr (snd (call cm c m))"

text \<open>\<open>return(f(...))\<close>.\<close>

definition return_call :: "canon \<Rightarrow> cm_call \<Rightarrow> step" where
  "return_call cm c m = Inl (call cm c m)"

definition when_step :: "bool \<Rightarrow> step \<Rightarrow> step" where
  "when_step b a m = (if b then a m else Inr m)"

definition execute_steps :: "canon \<Rightarrow> GCodeModel \<Rightarrow> GCodeFlags \<Rightarrow> step list" where
  "execute_steps cm n f =
     [CALL_CM_FUNC cm (f_inverse_feed_rate_mode f)
        (cm_set_inverse_feed_rate_mode (inverse_feed_rate_mode n)),
      CALL_CM_FUNC cm (f_feed_rate f) (cm_set_feed_rate (feed_rate n)),
      CALL_CM_FUNC cm (f_spindle_speed f) (cm_set_spindle_speed (spindle_speed n)),
      CALL_CM_FUNC cm (f_tool f) (cm_select_tool (tool n)),
      CALL_CM_FUNC cm (f_tool f) (cm_change_tool (tool n)),
      when_step (f_spindle_mode f)
        (if spindle_mode n = SPINDLE_CW then void_call cm cm_start_spindle_clockwise
         else if spindle_mode n = SPINDLE_CCW then void_call cm cm_start_spindle_counterclockwise
         else void_call cm cm_stop_spindle_turning),
      when_step (next_action n = NEXT_ACTION_DWELL) (ritorno cm (cm_dwell (dwell_time n))),
      CALL_CM_FUNC cm (f_select_plane f) (cm_select_plane (select_plane n)),
      when_step (f_inches_mode f) (return_call cm (cm_set_inches_mode (inches_mode n))),
      CALL_CM_FUNC cm (f_absolute_mode f) (cm_set_absolute_mode (absolute_mode n)),
      when_step (next_action n = NEXT_ACTION_RETURN_TO_HOME) (ritorno cm cm_return_to_home),
      when_step (next_action n = NEXT_ACTION_HOMING_CYCLE) (ritorno cm cm_homing_cycle),
      when_step (next_action n = NEXT_ACTION_OFFSET_COORDINATES)
        (ritorno cm (cm_set_origin_offsets (target n))),
      when_step (next_action n = NEXT_ACTION_MOTION \<and> motion_mode n = MOTION_MODE_STRAIGHT_TRAVERSE)
        (return_call cm (cm_straight_traverse (target n))),
      when_step (next_action n = NEXT_ACTION_MOTION \<and> motion_mode n = MOTION_MODE_STRAIGHT_FEED)
        (return_call cm (cm_straight_feed (target n))),
      when_step (next_action n = NEXT_ACTION_MOTION \<and>
                 (motion_mode n = MOTION_MODE_CW_ARC \<or> motion_mode n = MOTION_MODE_CCW_ARC))
        (return_call cm (cm_arc_feed (target n) (arc_offset n ! 0) (arc_offset n ! 1)
                           (arc_offset n ! 2) (arc_radius n) (motion_mode n)))]"

text \<open>
  \<open>_gc_execute_gcode_block\<close>: the statements in their order; behind the last one the
  function returns \<open>status\<close>, which is still \<open>TG_OK\<close>.
\<close>

definition gc_execute_gcode_block :: "canon \<Rightarrow> machine \<Rightarrow> status \<times> machine" where
  "gc_execute_gcode_block cm m =
     (case foldr then_step (execute_steps cm (gn m) (gf m)) Inr m of
        Inl r \<Rightarrow> r
      | Inr m' \<Rightarrow> (TG_OK, m'))"

text \<open>
  \<open>_gc_parse_gcode_block\<close>. The status that ends the \<open>while\<close> loop is not used: the
  function returns what \<open>_gc_execute_gcode_block\<close> returns.
\<close>

definition gc_parse_gcode_block :: "canon \<Rightarrow> string \<Rightarrow> machine \<Rightarrow> status \<times> machine" where
  "gc_parse_gcode_block cm buf m =
     (let m1 = m\<lparr>gn := (ZERO_MODEL_STATE cm)
                          \<lparr>next_action := cm_get_next_action cm,
                           motion_mode := cm_get_motion_mode cm,
                           absolute_mode := cm_get_absolute_mode cm\<rparr>,
                  gf := ZERO_FLAGS\<rparr>;
          m2 = snd (call cm (cm_set_absolute_override 0) m1);
          m3 = snd (parse_loop buf 0 m2);
          m4 = fold (fill_target cm) [0..<AXES] m3
      in gc_execute_gcode_block cm m4)"

text \<open>\<open>gc_gcode_parser\<close>, the entry point.\<close>

definition gc_gcode_parser :: "canon \<Rightarrow> string \<Rightarrow> session \<Rightarrow> status \<times> session" where
  "gc_gcode_parser cm block s =
     (let n = gc_normalize_gcode_block block;
          s1 = s\<lparr>linecount := (if ncounted n then linecount s + 1 else linecount s),
                  console := (case nmessage n of None \<Rightarrow> console s | Some t \<Rightarrow> console s @ [t])\<rparr>
      in if char_at (nblock n) 0 = NUL then (TG_NOOP, s1)
         else (case gc_parse_gcode_block cm (nblock n) (mach s1) of
                 (status, m') \<Rightarrow> (status, s1\<lparr>mach := m'\<rparr>)))"

subsection \<open>Notions used by the properties\<close>

text \<open>
  The test of the normalization loop, for a character that is neither \<open>NUL\<close> nor an
  opening parenthesis: the character is written back (first and last branch of the loop
  body) rather than tossed.
\<close>

definition kept :: "char \<Rightarrow> bool" where
  "kept c \<longleftrightarrow> isupper c \<or> isdigit c \<or>
     \<not> (code c \<le> code CHR '' '' \<or> c = DEL \<or> c \<in> set invalid_punctuation)"

text \<open>
  A statement of the execute step that returns, if it returns, the status \<open>TG_OK\<close>.
\<close>

definition ok_step :: "step \<Rightarrow> bool" where
  "ok_step a \<longleftrightarrow> (\<forall>m. case a m of Inl r \<Rightarrow> fst r = TG_OK | Inr m' \<Rightarrow> True)"

text \<open>
  The characters of the command portion that are retained, spelled out for the claim
  C5 as amended: digits, letters, the punctuation \<open>+-./*<=>|#)[]{}\<close>, the ampersand,
  the backslash (0x5C) and the bytes above 0x7F.
\<close>

definition spec_retained :: "char \<Rightarrow> bool" where
  "spec_retained c \<longleftrightarrow>
     isdigit c \<or> isupper (toupper c) \<or> c \<in> set ''+-./*<=>|#)[]{}&'' \<or> c = CHR 0x5C \<or>
     128 \<le> code c"

text \<open>
  The characters that are dropped, spelled out for the claim C5 as amended: whitespace
  and the control characters (codes up to 0x20), \<open>DEL\<close>, and the punctuation
  \<open>!$%,;:?@^_~\<close>, backquote (0x60), quote (0x27) and double quote (0x22).
\<close>

definition spec_dropped :: "char \<Rightarrow> bool" where
  "spec_dropped c \<longleftrightarrow>
     code c \<le> 32 \<or> c = CHR 0x7F \<or> c \<in> set ''!$%,;:?@^_~'' \<or>
     c = CHR 0x60 \<or> c = CHR 0x27 \<or> c = CHR 0x22"

text \<open>
  The line of the claim C6: case-folded, and stripped of spaces and tabs. Two lines
  differ only in letter case and in spaces and tabs if this maps them to the same string.
\<close>

definition case_folded_stripped :: "string \<Rightarrow> string" where
  "case_folded_stripped l = map toupper (filter (\<lambda>c. c \<noteq> CHR '' '' \<and> c \<noteq> CHR 0x09) l)"

subsection \<open>A machine to run blocks on\<close>

text \<open>
  A canonical machine at rest at the origin, in absolute mode and with no action
  pending, that answers \<open>TG_OK\<close> to every call; and a session before its first block.
\<close>

definition cm_idle :: canon where
  "cm_idle =
     \<lparr>cm_get_next_action = NEXT_ACTION_NONE, cm_get_motion_mode = MOTION_MODE_STRAIGHT_TRAVERSE,
      cm_get_absolute_mode = 1, cm_get_position = (\<lambda>i. 0), cm_status = (\<lambda>before c. TG_OK),
      zero_next_action = NEXT_ACTION_NONE, zero_motion_mode = MOTION_MODE_STRAIGHT_TRAVERSE,
      zero_plane = CANON_PLANE_XY, zero_path_control = PATH_EXACT_STOP,
      zero_program_flow = PROGRAM_FLOW_RUNNING, zero_spindle_mode = SPINDLE_OFF\<rparr>"

definition session0 :: session where
  "session0 =
     \<lparr>mach = \<lparr>gn = ZERO_MODEL_STATE cm_idle, gf = ZERO_FLAGS, linenum = 0, calls = []\<rparr>,
      linecount = 0, console = []\<rparr>"

section \<open>Properties\<close>

subsection \<open>The parsing loop ends\<close>

lemma uint8_t_fraction: "uint8_t (v - trunc v) = 0"
proof (cases "0 \<le> v")
  case True
  then have "0 \<le> v - of_int \<lfloor>v\<rfloor>" "v - of_int \<lfloor>v\<rfloor> < 1"
    by linarith+
  then have "\<lfloor>v - of_int \<lfloor>v\<rfloor>\<rfloor> = 0"
    by linarith
  with True \<open>0 \<le> v - of_int \<lfloor>v\<rfloor>\<close> show ?thesis
    by (simp add: uint8_t_def trunc_def)
next
  case False
  then have "v - of_int \<lceil>v\<rceil> \<le> 0" "- 1 < v - of_int \<lceil>v\<rceil>"
    by linarith+
  then have "\<lceil>v - of_int \<lceil>v\<rceil>\<rceil> = 0" "\<lfloor>v - of_int \<lceil>v\<rceil>\<rfloor> = 0 \<or> v - of_int \<lceil>v\<rceil> < 0"
    by linarith+
  with False show ?thesis
    by (auto simp add: uint8_t_def trunc_def)
qed

lemma read_double_index: "read_double buf k = Some (v, k') \<Longrightarrow> k \<le> k'"
  by (auto simp add: read_double_def Let_def split: if_splits)

lemma get_next_statement_Inr:
  assumes "get_next_statement buf i = Inr (letter, val, fraction, i')"
  shows "i < length buf" and "i < i'" and "fraction = val - trunc val"
    and "letter = char_at buf i" and "isupper letter"
proof -
  from assms have nul: "char_at buf i \<noteq> NUL"
    by (auto simp add: get_next_statement_def split: if_splits)
  then show "i < length buf"
    by (auto simp add: char_at_def split: if_splits)
  from assms obtain k where "read_double buf (i + 1) = Some (val, k)" and "i' = k"
    by (auto simp add: get_next_statement_def split: if_splits option.splits)
  then show "i < i'"
    using read_double_index by fastforce
  from assms show "fraction = val - trunc val" "letter = char_at buf i" "isupper letter"
    by (auto simp add: get_next_statement_def split: if_splits option.splits)
qed

termination parse_loop
proof (relation "measure (\<lambda>(buf, i, m). length buf - i)")
  show "wf (measure (\<lambda>(buf, i, m). length buf - i))"
    by simp
next
  fix buf :: string and i :: nat and m :: machine and x2 letter y val ya fraction i' xb status m'
  assume "get_next_statement buf i = Inr x2" "(letter, y) = x2" "(val, ya) = y"
    "(fraction, i') = ya"
    and "letter = CHR ''G'' \<and> uint8_t val = 92 \<and> uint8_t fraction \<noteq> 0"
  then have "get_next_statement buf i = Inr (letter, val, fraction, i')" "uint8_t fraction \<noteq> 0"
    by auto
  then have False
    using get_next_statement_Inr(3) uint8_t_fraction by blast
  then show "((buf, 0, zero_targets m'), buf, i, m) \<in> measure (\<lambda>(buf, i, m). length buf - i)"
    by simp
next
  fix buf :: string and i :: nat and m :: machine and x2 letter y val ya fraction i' xb status m'
  assume "get_next_statement buf i = Inr x2" "(letter, y) = x2" "(val, ya) = y"
    "(fraction, i') = ya"
  then have "get_next_statement buf i = Inr (letter, val, fraction, i')"
    by auto
  then have "i < length buf" "i < i'"
    using get_next_statement_Inr by blast+
  then show "((buf, i', m'), buf, i, m) \<in> measure (\<lambda>(buf, i, m). length buf - i)"
    by simp
qed

declare parse_loop.simps [simp del]

subsection \<open>Unrecognized statements\<close>

text \<open>
  On a canonical machine that answers \<open>TG_OK\<close> to every call the parser returns
  \<open>TG_OK\<close> or \<open>TG_NOOP\<close> for every block: no status of the parsing loop is ever
  returned.
\<close>

lemma ok_step_foldr: "list_all ok_step steps \<Longrightarrow> ok_step (foldr then_step steps Inr)"
proof (induction steps)
  case Nil
  show ?case by (simp add: ok_step_def)
next
  case (Cons a steps)
  then have "ok_step a" "ok_step (foldr then_step steps Inr)"
    by simp_all
  show ?case
    unfolding ok_step_def
  proof
    fix m
    from \<open>ok_step a\<close> have a: "case a m of Inl r \<Rightarrow> fst r = TG_OK | Inr m' \<Rightarrow> True"
      by (simp add: ok_step_def)
    show "case foldr then_step (a # steps) Inr m of Inl r \<Rightarrow> fst r = TG_OK | Inr m' \<Rightarrow> True"
    proof (cases "a m")
      case (Inl r)
      with a show ?thesis
        by (simp add: then_step_def)
    next
      case (Inr m')
      from \<open>ok_step (foldr then_step steps Inr)\<close>
      have "case foldr then_step steps Inr m' of Inl r \<Rightarrow> fst r = TG_OK | Inr m'' \<Rightarrow> True"
        by (simp add: ok_step_def)
      with Inr show ?thesis
        by (simp add: then_step_def)
    qed
  qed
qed

lemma execute_steps_ok:
  assumes "\<forall>before c. cm_status cm before c = TG_OK"
  shows "list_all ok_step (execute_steps cm n f)"
  using assms
  by (simp add: execute_steps_def ok_step_def CALL_CM_FUNC_def ritorno_def when_step_def
      void_call_def return_call_def call_def)

lemma execute_accepting:
  assumes "\<forall>before c. cm_status cm before c = TG_OK"
  shows "fst (gc_execute_gcode_block cm m) = TG_OK"
  using ok_step_foldr [OF execute_steps_ok [OF assms], of "gn m" "gf m"]
  by (auto simp add: gc_execute_gcode_block_def ok_step_def split: sum.splits)

lemma parser_accepting:
  assumes "\<forall>before c. cm_status cm before c = TG_OK"
  shows "fst (gc_gcode_parser cm block s) = TG_OK \<or> fst (gc_gcode_parser cm block s) = TG_NOOP"
proof -
  have "fst (gc_parse_gcode_block cm buf m) = TG_OK" for buf m
    using execute_accepting [OF assms] by (simp add: gc_parse_gcode_block_def Let_def)
  then show ?thesis
    by (simp add: gc_gcode_parser_def Let_def split_beta)
qed

text \<open>
  C1 claims that a block with an unrecognized statement returns
  \<open>TG_UNRECOGNIZED_COMMAND\<close> and invokes no canonical-machine action. On the block
  \<open>G1 X10 G99\<close> the \<open>while\<close> loop does end with the status
  \<open>TG_UNRECOGNIZED_COMMAND\<close>, but \<open>_gc_parse_gcode_block\<close> drops that status
  and executes what was parsed so far: the straight feed to X10 is invoked, and the
  parser returns the status of the feed, \<open>TG_OK\<close>.
\<close>

theorem unrecognized_statement_still_executes:
  "fst (parse_loop ''G1X10G99'' 0 (mach session0)) = TG_UNRECOGNIZED_COMMAND \<and>
   fst (gc_gcode_parser cm_idle ''G1 X10 G99'' session0) = TG_OK \<and>
   calls (mach (snd (gc_gcode_parser cm_idle ''G1 X10 G99'' session0))) =
     [cm_set_absolute_override 0, cm_straight_feed [10, 0, 0, 0, 0, 0]]"
  by code_simp

subsection \<open>Order of execution\<close>

text \<open>
  C2 claims that the execute step returns early only when a primitive returns a status
  other than OK, so that a block that sets the units and commands a motion still
  performs the motion. The block \<open>G20 G1 X1 F10\<close> asks for a motion, and every call is
  answered \<open>TG_OK\<close>; yet the execute step returns behind \<open>cm_set_inches_mode\<close>:
  no straight feed is invoked.
\<close>

theorem units_block_skips_motion:
  "next_action (gn (mach (snd (gc_gcode_parser cm_idle ''G20 G1 X1 F10'' session0)))) =
     NEXT_ACTION_MOTION \<and>
   motion_mode (gn (mach (snd (gc_gcode_parser cm_idle ''G20 G1 X1 F10'' session0)))) =
     MOTION_MODE_STRAIGHT_FEED \<and>
   fst (gc_gcode_parser cm_idle ''G20 G1 X1 F10'' session0) = TG_OK \<and>
   calls (mach (snd (gc_gcode_parser cm_idle ''G20 G1 X1 F10'' session0))) =
     [cm_set_absolute_override 0, cm_set_feed_rate 10, cm_set_inches_mode 1]"
  by code_simp

subsection \<open>Fractional G codes\<close>

text \<open>
  The two tests of the parsing loop for a fractional G code never succeed: the loop is
  the loop without them.
\<close>

lemma parse_loop_fraction_dead:
  "parse_loop buf i m =
     (case get_next_statement buf i of
        Inl status \<Rightarrow> (status, m)
      | Inr (letter, val, fraction, i') \<Rightarrow>
          (case parse_statement letter val m of
             (status, m') \<Rightarrow> if status \<noteq> TG_OK then (status, m') else parse_loop buf i' m'))"
proof (cases "get_next_statement buf i")
  case (Inl status)
  then show ?thesis
    by (subst parse_loop.simps) simp
next
  case (Inr x)
  obtain letter val fraction i' where x: "x = (letter, val, fraction, i')"
    by (cases x) auto
  with Inr have "uint8_t fraction = 0"
    using get_next_statement_Inr(3) uint8_t_fraction by blast
  with Inr x show ?thesis
    by (subst parse_loop.simps) (simp split: prod.splits)
qed

text \<open>
  C3 claims that G61.1 sets the path control of the next-block model to
  \<open>PATH_EXACT_STOP\<close>. The test for the fraction is \<open>(uint8_t)fraction != 0\<close>,
  and the cast of a fraction is 0: the block \<open>G61.1\<close>
  is parsed as G61 and leaves \<open>PATH_EXACT_PATH\<close>, with the flag set.
\<close>

theorem G61_1_sets_exact_path:
  "path_control (gn (mach (snd (gc_gcode_parser cm_idle ''G61.1'' session0)))) = PATH_EXACT_PATH \<and>
   f_path_control (gf (mach (snd (gc_gcode_parser cm_idle ''G61.1'' session0))))"
  by code_simp

text \<open>
  C4 claims that G92.1 sets the target of every axis to zero, with the flag of every
  axis target set. For the same reason as for G61.1 the block \<open>X5 G92.1\<close> is parsed as
  \<open>X5 G92\<close>: the target of X stays 5 and only the flag of X is set.
\<close>

theorem G92_1_keeps_targets:
  "target (gn (mach (snd (gc_gcode_parser cm_idle ''X5 G92.1'' session0)))) = [5, 0, 0, 0, 0, 0] \<and>
   f_target (gf (mach (snd (gc_gcode_parser cm_idle ''X5 G92.1'' session0)))) =
     [True, False, False, False, False, False] \<and>
   next_action (gn (mach (snd (gc_gcode_parser cm_idle ''X5 G92.1'' session0)))) =
     NEXT_ACTION_OFFSET_COORDINATES"
  by code_simp

subsection \<open>Characters by their codes\<close>

lemma code_less: "code c < 256"
  by (simp add: code_def)

lemma code_eq_iff: "c = d \<longleftrightarrow> code c = code d"
  by (auto simp add: code_def)

lemma code_toupper:
  "code (toupper c) = (if 97 \<le> code c \<and> code c \<le> 122 then code c - 32 else code c)"
  using code_less [of c] by (auto simp add: toupper_def code_def)

lemma toupper_NUL: "toupper c = NUL \<longleftrightarrow> c = NUL"
  by (simp add: code_eq_iff [of _ NUL] code_toupper) (simp add: NUL_def code_def)

lemma toupper_paren: "toupper c = CHR ''('' \<longleftrightarrow> c = CHR ''(''"
  by (simp add: code_eq_iff [of _ "CHR ''(''"] code_toupper) (simp add: code_def, arith)

lemma toupper_idem: "toupper (toupper c) = toupper c"
  by (simp add: code_eq_iff [of "toupper _"] code_toupper) arith

lemma kept_iff: "kept (toupper b) \<and> b \<noteq> CHR ''('' \<longleftrightarrow> spec_retained b"
  using code_less [of b]
  apply (simp add: kept_def spec_retained_def code_eq_iff [of "toupper _"] code_eq_iff [of b]
      code_toupper isupper_def isdigit_def invalid_punctuation_def)
  apply (simp add: NUL_def DEL_def code_def)
  apply arith
  done

lemma spec_retained_iff:
  "spec_retained c \<longleftrightarrow> \<not> (c = CHR ''('' \<or> spec_dropped c)"
  using code_less [of c]
  apply (simp add: spec_retained_def spec_dropped_def code_eq_iff [of c] code_toupper
      isupper_def isdigit_def)
  apply (simp add: code_def)
  apply arith
  done

lemma not_kept_space: "\<not> kept (toupper CHR '' '')" "\<not> kept (toupper CHR 0x09)"
  by (simp_all add: kept_def toupper_def isupper_def isdigit_def code_def)

subsection \<open>What normalization retains\<close>

lemma cstring_Cons: "cstring (b # bs) = (if b = NUL then [] else b # cstring bs)"
  by (simp add: cstring_def)

lemma cstring_Nil_iff: "cstring l = [] \<longleftrightarrow> char_at l 0 = NUL"
  by (cases l) (auto simp add: cstring_def char_at_def)

lemma cstring_hd: "cstring l = b # bs \<Longrightarrow> char_at l 0 = b \<and> b \<noteq> NUL"
  by (cases l) (auto simp add: cstring_def char_at_def split: if_splits)

lemma char_at_cstring: "char_at (cstring l) 0 = char_at l 0"
  by (cases l) (auto simp add: cstring_def char_at_def)

lemma normalize_loop_Cons:
  assumes "b \<noteq> NUL" "b \<noteq> CHR ''(''"
  shows "normalize_loop (b # bs) =
    (if kept (toupper b) then (toupper b # fst (normalize_loop bs), snd (normalize_loop bs))
     else normalize_loop bs)"
  using assms by (auto simp add: kept_def Let_def toupper_NUL toupper_paren split: prod.splits)

lemma normalize_loop_NUL: "normalize_loop (NUL # bs) = ([], None)"
  by (simp add: toupper_NUL Let_def)

lemma normalize_loop_paren: "fst (normalize_loop (CHR ''('' # bs)) = []"
  by code_simp

lemma normalize_loop_retains:
  "fst (normalize_loop l) =
     map toupper (filter spec_retained (takeWhile (\<lambda>c. c \<noteq> CHR ''('') (cstring l)))"
proof (induction l)
  case Nil
  show ?case by (simp add: cstring_def)
next
  case (Cons b bs)
  show ?case
  proof (cases "b = NUL \<or> b = CHR ''(''")
    case True
    then show ?thesis
      using normalize_loop_NUL normalize_loop_paren
      by (auto simp add: cstring_Cons simp del: normalize_loop.simps)
  next
    case False
    then have "normalize_loop (b # bs) =
        (if kept (toupper b) then (toupper b # fst (normalize_loop bs), snd (normalize_loop bs))
         else normalize_loop bs)"
      using normalize_loop_Cons [of b bs] by blast
    moreover have "kept (toupper b) \<longleftrightarrow> spec_retained b"
      using kept_iff [of b] False by blast
    ultimately show ?thesis
      using False Cons.IH by (simp add: cstring_Cons del: normalize_loop.simps)
  qed
qed

lemma normalize_loop_cstring: "fst (normalize_loop (cstring l)) = fst (normalize_loop l)"
  by (simp add: normalize_loop_retains cstring_def)

lemma nblock_normalize:
  "nblock (gc_normalize_gcode_block line) =
     (if char_at line 0 = CHR ''/'' then []
      else if char_at line 0 = CHR ''?'' then cstring line
      else fst (normalize_loop line))"
proof (cases "cstring line")
  case Nil
  then have "char_at line 0 = NUL" "fst (normalize_loop line) = []"
    using cstring_Nil_iff [of line] normalize_loop_cstring [of line] by simp_all
  with Nil show ?thesis
    by (simp add: gc_normalize_gcode_block_def NUL_def)
next
  case (Cons b bs)
  then have "char_at line 0 = b"
    using cstring_hd by blast
  moreover have "fst (normalize_loop (b # bs)) = fst (normalize_loop line)"
    using normalize_loop_cstring [of line] Cons by simp
  ultimately show ?thesis
    using Cons
    by (cases "normalize_loop (b # bs)")
      (simp add: gc_normalize_gcode_block_def del: normalize_loop.simps)
qed

text \<open>
  C5 claims that normalization retains the digits, the letters and the characters
  \<open>+-./*<=>|%#()[]{}\<close>, and in particular the character \<open>%\<close>. The string of the
  \<open>strchr\<close> call contains \<open>%\<close>: the character is dropped.
\<close>

theorem normalize_drops_percent:
  "nblock (gc_normalize_gcode_block ''X1%Y2'') = ''X1Y2''"
  by code_simp

text \<open>
  C5, as amended. For every input line of at most 255 characters that begins with
  neither \<open>/\<close> nor \<open>?\<close>, normalization retains, of the command portion (the characters
  before the first opening parenthesis, which ends the command and is not retained
  itself), exactly the digits, the letters (uppercased), the characters
  \<open>+-./*<=>|#)[]{}\<close>, the ampersand, the backslash and the bytes above 0x7F, and
  drops all others, which are whitespace, \<open>DEL\<close>, the control characters below 0x20
  and the characters \<open>!$%,;:?@^_~\<close>, backquote, quote and double quote; in particular
  the character \<open>%\<close> is dropped.
\<close>

theorem normalize_retains:
  assumes "length line \<le> 255"
    and "char_at line 0 \<noteq> CHR ''/''" and "char_at line 0 \<noteq> CHR ''?''"
  shows "nblock (gc_normalize_gcode_block line) =
           map toupper (filter spec_retained (takeWhile (\<lambda>c. c \<noteq> CHR ''('') (cstring line))) \<and>
         (\<forall>c. spec_retained c \<longleftrightarrow> \<not> (c = CHR ''('' \<or> spec_dropped c)) \<and>
         spec_dropped CHR ''%''"
proof -
  have "nblock (gc_normalize_gcode_block line) = fst (normalize_loop line)"
    using assms(2,3) by (simp add: nblock_normalize)
  moreover have "spec_dropped CHR ''%''"
    by (simp add: spec_dropped_def)
  ultimately show ?thesis
    using normalize_loop_retains [of line] spec_retained_iff by simp
qed

theorem normalize_retains_witness:
  "length ''g1 x1%y2&(c)'' \<le> 255 \<and> char_at ''g1 x1%y2&(c)'' 0 \<noteq> CHR ''/'' \<and>
   char_at ''g1 x1%y2&(c)'' 0 \<noteq> CHR ''?'' \<and>
   nblock (gc_normalize_gcode_block ''g1 x1%y2&(c)'') = ''G1X1Y2&''"
proof -
  have h1: "length ''g1 x1%y2&(c)'' \<le> 255"
    by simp
  have h2: "char_at ''g1 x1%y2&(c)'' 0 \<noteq> CHR ''/''"
    by code_simp
  have h3: "char_at ''g1 x1%y2&(c)'' 0 \<noteq> CHR ''?''"
    by code_simp
  have "map toupper (filter spec_retained
          (takeWhile (\<lambda>c. c \<noteq> CHR ''('') (cstring ''g1 x1%y2&(c)''))) = ''G1X1Y2&''"
    by code_simp
  then have "nblock (gc_normalize_gcode_block ''g1 x1%y2&(c)'') = ''G1X1Y2&''"
    using normalize_retains [OF h1 h2 h3] by simp
  with h1 h2 h3 show ?thesis
    by blast
qed

subsection \<open>Letter case and whitespace\<close>

lemma normalize_loop_folded:
  "fst (normalize_loop (case_folded_stripped l)) = fst (normalize_loop l)"
proof (induction l)
  case Nil
  show ?case by (simp add: case_folded_stripped_def)
next
  case (Cons b bs)
  let ?f = "case_folded_stripped"
  consider "b = NUL" | "b = CHR ''(''" | "b = CHR '' '' \<or> b = CHR 0x09"
    | "b \<noteq> NUL" "b \<noteq> CHR ''(''" "b \<noteq> CHR '' ''" "b \<noteq> CHR 0x09"
    by blast
  then show ?case
  proof cases
    case 1
    then have "?f (b # bs) = NUL # ?f bs"
      using toupper_NUL [of NUL] by (simp add: case_folded_stripped_def NUL_def)
    with 1 show ?thesis
      by (simp only: normalize_loop_NUL)
  next
    case 2
    then have "?f (b # bs) = CHR ''('' # ?f bs"
      using toupper_paren [of "CHR ''(''"] by (simp add: case_folded_stripped_def)
    with 2 show ?thesis
      by (simp only: normalize_loop_paren)
  next
    case 3
    then have "?f (b # bs) = ?f bs"
      by (auto simp add: case_folded_stripped_def)
    moreover from 3 have "normalize_loop (b # bs) = normalize_loop bs"
      using not_kept_space normalize_loop_Cons [of b bs] by (auto simp add: NUL_def)
    ultimately show ?thesis
      using Cons.IH by simp
  next
    case 4
    then have f: "?f (b # bs) = toupper b # ?f bs"
      by (simp add: case_folded_stripped_def)
    from 4 have "toupper b \<noteq> NUL" "toupper b \<noteq> CHR ''(''"
      by (simp_all add: toupper_NUL toupper_paren)
    then have "normalize_loop (toupper b # ?f bs) =
        (if kept (toupper b)
         then (toupper b # fst (normalize_loop (?f bs)), snd (normalize_loop (?f bs)))
         else normalize_loop (?f bs))"
      using normalize_loop_Cons [of "toupper b" "?f bs", unfolded toupper_idem] by blast
    moreover from 4 have "normalize_loop (b # bs) =
        (if kept (toupper b) then (toupper b # fst (normalize_loop bs), snd (normalize_loop bs))
         else normalize_loop bs)"
      using normalize_loop_Cons [of b bs] by blast
    ultimately show ?thesis
      using Cons.IH f by simp
  qed
qed

lemma parse_loop_question:
  "char_at buf 0 = CHR ''?'' \<Longrightarrow> parse_loop buf 0 m = (TG_EXPECTED_COMMAND_LETTER, m)"
  by (subst parse_loop.simps) (simp add: get_next_statement_def NUL_def isupper_def code_def)

lemma parser_mach:
  "(fst (gc_gcode_parser cm l s), mach (snd (gc_gcode_parser cm l s))) =
     (if char_at (nblock (gc_normalize_gcode_block l)) 0 = NUL then (TG_NOOP, mach s)
      else gc_parse_gcode_block cm (nblock (gc_normalize_gcode_block l)) (mach s))"
  by (simp add: gc_gcode_parser_def Let_def split: prod.splits)

text \<open>
  C6 claims that two lines that differ only in letter case and in spaces and tabs are
  parsed to the same status and the same next-block model. The block-delete character
  is only looked for at the first position of the line: \<open>/G1\<close> is deleted
  (\<open>TG_NOOP\<close>), whereas in \<open> /G1\<close> the slash is passed on as a character of the
  command, and the block is parsed and executed.
\<close>

theorem block_delete_behind_space:
  "case_folded_stripped ''/G1'' = case_folded_stripped '' /G1'' \<and>
   fst (gc_gcode_parser cm_idle ''/G1'' session0) = TG_NOOP \<and>
   fst (gc_gcode_parser cm_idle '' /G1'' session0) = TG_OK"
  by code_simp

text \<open>
  C6, as amended. For every pair of input lines of at most 255 characters that differ
  only in letter case and in inserted or removed spaces and tabs, and that agree on
  whether their first character is \<open>/\<close> and on whether it is \<open>?\<close>, parsing the two
  lines (on the same canonical machine, from the same state) produces the same status
  and the same next-block model \<open>gn\<close>, \<open>gf\<close>. Nothing is said of the message that
  a comment passes to \<open>cm_message\<close>: it is taken from the comment as written.
\<close>

theorem parser_case_whitespace:
  assumes "length l1 \<le> 255" and "length l2 \<le> 255"
    and "case_folded_stripped l1 = case_folded_stripped l2"
    and "char_at l1 0 = CHR ''/'' \<longleftrightarrow> char_at l2 0 = CHR ''/''"
    and "char_at l1 0 = CHR ''?'' \<longleftrightarrow> char_at l2 0 = CHR ''?''"
  shows "fst (gc_gcode_parser cm l1 s) = fst (gc_gcode_parser cm l2 s) \<and>
         gn (mach (snd (gc_gcode_parser cm l1 s))) = gn (mach (snd (gc_gcode_parser cm l2 s))) \<and>
         gf (mach (snd (gc_gcode_parser cm l1 s))) = gf (mach (snd (gc_gcode_parser cm l2 s)))"
proof -
  let ?n1 = "nblock (gc_normalize_gcode_block l1)" and ?n2 = "nblock (gc_normalize_gcode_block l2)"
  have "(if char_at ?n1 0 = NUL then (TG_NOOP, mach s) else gc_parse_gcode_block cm ?n1 (mach s)) =
        (if char_at ?n2 0 = NUL then (TG_NOOP, mach s) else gc_parse_gcode_block cm ?n2 (mach s))"
  proof (cases "char_at l1 0 = CHR ''?''")
    case True
    with assms(5) have q: "char_at l1 0 = CHR ''?''" "char_at l2 0 = CHR ''?''"
      by simp_all
    then have "?n1 = cstring l1" "?n2 = cstring l2"
      by (simp_all add: nblock_normalize)
    moreover from q have "char_at (cstring l1) 0 = CHR ''?''" "char_at (cstring l2) 0 = CHR ''?''"
      by (simp_all add: char_at_cstring)
    ultimately show ?thesis
      by (simp add: gc_parse_gcode_block_def parse_loop_question NUL_def Let_def)
  next
    case False
    with assms(5) have nq: "char_at l1 0 \<noteq> CHR ''?''" "char_at l2 0 \<noteq> CHR ''?''"
      by simp_all
    have "fst (normalize_loop l1) = fst (normalize_loop l2)"
      using assms(3) normalize_loop_folded [of l1] normalize_loop_folded [of l2] by simp
    with nq assms(4) have "?n1 = ?n2"
      by (simp add: nblock_normalize)
    then show ?thesis
      by simp
  qed
  then have "(fst (gc_gcode_parser cm l1 s), mach (snd (gc_gcode_parser cm l1 s))) =
             (fst (gc_gcode_parser cm l2 s), mach (snd (gc_gcode_parser cm l2 s)))"
    by (simp only: parser_mach)
  then show ?thesis
    by simp
qed

theorem parser_case_whitespace_witness:
  "length ''g1 x10'' \<le> 255 \<and> length ''G1X10'' \<le> 255 \<and>
   case_folded_stripped ''g1 x10'' = case_folded_stripped ''G1X10'' \<and>
   (char_at ''g1 x10'' 0 = CHR ''/'') = (char_at ''G1X10'' 0 = CHR ''/'') \<and>
   (char_at ''g1 x10'' 0 = CHR ''?'') = (char_at ''G1X10'' 0 = CHR ''?'') \<and>
   fst (gc_gcode_parser cm_idle ''g1 x10'' session0) =
     fst (gc_gcode_parser cm_idle ''G1X10'' session0) \<and>
   gn (mach (snd (gc_gcode_parser cm_idle ''g1 x10'' session0))) =
     gn (mach (snd (gc_gcode_parser cm_idle ''G1X10'' session0))) \<and>
   gf (mach (snd (gc_gcode_parser cm_idle ''g1 x10'' session0))) =
     gf (mach (snd (gc_gcode_parser cm_idle ''G1X10'' session0)))"
proof -
  have h1: "length ''g1 x10'' \<le> 255" and h2: "length ''G1X10'' \<le> 255"
    by simp_all
  have h3: "case_folded_stripped ''g1 x10'' = case_folded_stripped ''G1X10''"
    by code_simp
  have h4: "(char_at ''g1 x10'' 0 = CHR ''/'') = (char_at ''G1X10'' 0 = CHR ''/'')"
    by code_simp
  have h5: "(char_at ''g1 x10'' 0 = CHR ''?'') = (char_at ''G1X10'' 0 = CHR ''?'')"
    by code_simp
  show ?thesis
    using h1 h2 h3 h4 h5 parser_case_whitespace [OF h1 h2 h3 h4 h5, of cm_idle session0]
    by blast
qed

end
